theory Spec2Isabelle
  imports Complex_Main
begin

section \<open>The slide viewer of SlideView.tsx\<close>

text \<open>
  The development embeds the handlers of the three React components of
  \<^verbatim>\<open>src/components/content_views/SlideView.tsx\<close> that the slide viewer is made
  of: \<^verbatim>\<open>FullscreenSlideViewer\<close> (navigation), \<^verbatim>\<open>SlidePdfViewer\<close> (loading,
  scaling, rendering) and \<^verbatim>\<open>SavedSlideViewer\<close> (the preview), together with the
  hook \<^verbatim>\<open>useBase64ToBlobUrl\<close>. Component state (the \<^verbatim>\<open>useState\<close> and
  \<^verbatim>\<open>useRef\<close> cells) is a record; a handler is a function from the state at the
  time of the event to the state after it. Events are handled one at a time, each on
  the state the previous one left.
\<close>

subsection \<open>JavaScript numbers\<close>

text \<open>
  Coordinates and sizes are JavaScript numbers. Finite values are modelled as reals;
  the quotient by zero, which JavaScript does not raise on, is kept apart: a positive
  number over zero is \<^verbatim>\<open>Infinity\<close>, a negative one \<^verbatim>\<open>-Infinity\<close>, and
  zero over zero is \<^verbatim>\<open>NaN\<close>. Every comparison with \<^verbatim>\<open>NaN\<close> is false and
  \<^verbatim>\<open>Math.min\<close> of a \<^verbatim>\<open>NaN\<close> is \<^verbatim>\<open>NaN\<close>.
\<close>

datatype jsnum = Num real | PosInf | NegInf | NaN

definition js_div :: "real \<Rightarrow> real \<Rightarrow> jsnum" where
  "js_div a b =
     (if b \<noteq> 0 then Num (a / b)
      else if 0 < a then PosInf
      else if a < 0 then NegInf
      else NaN)"

fun js_times100 :: "jsnum \<Rightarrow> jsnum" where
  "js_times100 (Num x) = Num (x * 100)"
| "js_times100 PosInf = PosInf"
| "js_times100 NegInf = NegInf"
| "js_times100 NaN = NaN"

fun js_le :: "jsnum \<Rightarrow> real \<Rightarrow> bool" where
  "js_le (Num x) c = (x \<le> c)"
| "js_le PosInf c = False"
| "js_le NegInf c = True"
| "js_le NaN c = False"

fun js_ge :: "jsnum \<Rightarrow> real \<Rightarrow> bool" where
  "js_ge (Num x) c = (c \<le> x)"
| "js_ge PosInf c = True"
| "js_ge NegInf c = False"
| "js_ge NaN c = False"

fun js_min :: "jsnum \<Rightarrow> jsnum \<Rightarrow> jsnum" where
  "js_min NaN y = NaN"
| "js_min x NaN = NaN"
| "js_min NegInf y = NegInf"
| "js_min x NegInf = NegInf"
| "js_min PosInf y = y"
| "js_min x PosInf = x"
| "js_min (Num x) (Num y) = Num (min x y)"

text \<open>
  A state cell of type \<^verbatim>\<open>number | null\<close> tested with \<^verbatim>\<open>!\<close>: \<^verbatim>\<open>null\<close> is
  falsy, and so is the number zero.
\<close>

fun truthy :: "real option \<Rightarrow> bool" where
  "truthy None = False"
| "truthy (Some x) = (x \<noteq> 0)"

subsection \<open>FullscreenSlideViewer: state and handlers\<close>

record fullscreen_state =
  currentSlide :: int
  totalSlides :: int
  touchStart :: "real option"
  touchEnd :: "real option"
  viewerRef :: bool
  lastClickTime :: int
  closeCalls :: nat

text \<open>
  \<open>viewerRef\<close> says whether \<^verbatim>\<open>viewerRef.current\<close> is set, and \<open>closeCalls\<close>
  counts the calls of the \<^verbatim>\<open>onClose\<close> property. The state a freshly mounted
  viewer starts in:
\<close>

definition initial_state :: fullscreen_state where
  "initial_state =
     \<lparr>currentSlide = 1, totalSlides = 1, touchStart = None, touchEnd = None,
      viewerRef = True, lastClickTime = 0, closeCalls = 0\<rparr>"

definition onClose :: "fullscreen_state \<Rightarrow> fullscreen_state" where
  "onClose s = s\<lparr>closeCalls := Suc (closeCalls s)\<rparr>"

definition minSwipeDistance :: real where
  "minSwipeDistance = 50"

definition onTouchStart :: "fullscreen_state \<Rightarrow> real \<Rightarrow> fullscreen_state" where
  "onTouchStart s clientX = s\<lparr>touchEnd := None, touchStart := Some clientX\<rparr>"

definition onTouchMove :: "fullscreen_state \<Rightarrow> real \<Rightarrow> fullscreen_state" where
  "onTouchMove s clientX = s\<lparr>touchEnd := Some clientX\<rparr>"

text \<open>
  \<^verbatim>\<open>onTouchEnd\<close> tests both cells with \<^verbatim>\<open>!\<close>, reads \<^verbatim>\<open>currentSlide\<close> of
  the render it was created in for its two guards, and queues the two functional
  updates in order.
\<close>

definition onTouchEnd :: "fullscreen_state \<Rightarrow> fullscreen_state" where
  "onTouchEnd s =
     (if \<not> truthy (touchStart s) \<or> \<not> truthy (touchEnd s) then s
      else
        let distance = the (touchStart s) - the (touchEnd s);
            isLeftSwipe = distance > minSwipeDistance;
            isRightSwipe = distance < - minSwipeDistance;
            s1 = (if isLeftSwipe \<and> currentSlide s < totalSlides s
                  then s\<lparr>currentSlide := currentSlide s + 1\<rparr> else s);
            s2 = (if isRightSwipe \<and> currentSlide s > 1
                  then s1\<lparr>currentSlide := currentSlide s1 - 1\<rparr> else s1)
        in s2)"

definition handleKeyPress :: "fullscreen_state \<Rightarrow> string \<Rightarrow> fullscreen_state" where
  "handleKeyPress s key =
     (if key = ''ArrowLeft'' \<or> key = ''ArrowUp''
        then s\<lparr>currentSlide := max 1 (currentSlide s - 1)\<rparr>
      else if key = ''ArrowRight'' \<or> key = ''ArrowDown''
        then s\<lparr>currentSlide := min (totalSlides s) (currentSlide s + 1)\<rparr>
      else if key = ''Escape'' then onClose s
      else s)"

text \<open>\<open>currentTime\<close> is what \<^verbatim>\<open>new Date().getTime()\<close> returns, in milliseconds.\<close>

definition handleDoubleClick :: "fullscreen_state \<Rightarrow> int \<Rightarrow> fullscreen_state" where
  "handleDoubleClick s currentTime =
     (let s1 = (if currentTime - lastClickTime s < 300 then onClose s else s)
      in s1\<lparr>lastClickTime := currentTime\<rparr>)"

text \<open>
  A mouse event as \<^verbatim>\<open>handleClickNavigation\<close> reads it: \<^verbatim>\<open>e.clientX\<close> and the
  \<^verbatim>\<open>left\<close> and \<^verbatim>\<open>width\<close> of the bounding rectangle of the clicked element.
\<close>

record mouse_event =
  clientX :: real
  rect_left :: real
  rect_width :: real

definition clickPercentage :: "mouse_event \<Rightarrow> jsnum" where
  "clickPercentage e =
     (let clickX = clientX e - rect_left e
      in js_times100 (js_div clickX (rect_width e)))"

definition handleClickNavigation :: "fullscreen_state \<Rightarrow> mouse_event \<Rightarrow> fullscreen_state" where
  "handleClickNavigation s e =
     (if \<not> viewerRef s then s
      else if js_le (clickPercentage e) 25
        then s\<lparr>currentSlide := max 1 (currentSlide s - 1)\<rparr>
      else if js_ge (clickPercentage e) 75
        then s\<lparr>currentSlide := min (totalSlides s) (currentSlide s + 1)\<rparr>
      else s)"

definition handlePdfLoad :: "fullscreen_state \<Rightarrow> int \<Rightarrow> fullscreen_state" where
  "handlePdfLoad s numPages = s\<lparr>totalSlides := numPages, currentSlide := 1\<rparr>"

text \<open>
  The events the viewer listens to, each with the wall-clock time (milliseconds) at
  which its handler runs: the three touch events of the outer element, the click and
  double-click of the slide area, and the key-down listener of the window.
\<close>

datatype nav_event =
  TouchStart real
| TouchMove real
| TouchEnd
| Click mouse_event
| DoubleClick
| KeyDown string

fun dispatch :: "fullscreen_state \<Rightarrow> int \<times> nav_event \<Rightarrow> fullscreen_state" where
  "dispatch s (now, TouchStart x) = onTouchStart s x"
| "dispatch s (now, TouchMove x) = onTouchMove s x"
| "dispatch s (now, TouchEnd) = onTouchEnd s"
| "dispatch s (now, Click e) = handleClickNavigation s e"
| "dispatch s (now, DoubleClick) = handleDoubleClick s now"
| "dispatch s (now, KeyDown key) = handleKeyPress s key"

definition run :: "fullscreen_state \<Rightarrow> (int \<times> nav_event) list \<Rightarrow> fullscreen_state" where
  "run s evs = foldl dispatch s evs"

text \<open>The range invariant of the view state.\<close>

definition in_range :: "fullscreen_state \<Rightarrow> bool" where
  "in_range s = (1 \<le> currentSlide s \<and> currentSlide s \<le> totalSlides s)"

text \<open>
  The transitions of the navigation state machine, read off the event and the state it
  arrives in: the decrementing ones are a left or up arrow key, a click in the left
  zone and a completed swipe to the right (the finger ends more than the threshold to
  the right of where it started); the incrementing ones are symmetric.
\<close>

definition is_decrement :: "fullscreen_state \<Rightarrow> nav_event \<Rightarrow> bool" where
  "is_decrement s ev =
     (case ev of
        KeyDown key \<Rightarrow> key = ''ArrowLeft'' \<or> key = ''ArrowUp''
      | Click e \<Rightarrow> viewerRef s \<and> js_le (clickPercentage e) 25
      | TouchEnd \<Rightarrow> truthy (touchStart s) \<and> truthy (touchEnd s) \<and>
          the (touchStart s) - the (touchEnd s) < - minSwipeDistance
      | _ \<Rightarrow> False)"

definition is_increment :: "fullscreen_state \<Rightarrow> nav_event \<Rightarrow> bool" where
  "is_increment s ev =
     (case ev of
        KeyDown key \<Rightarrow> key = ''ArrowRight'' \<or> key = ''ArrowDown''
      | Click e \<Rightarrow> viewerRef s \<and> \<not> js_le (clickPercentage e) 25 \<and>
          js_ge (clickPercentage e) 75
      | TouchEnd \<Rightarrow> truthy (touchStart s) \<and> truthy (touchEnd s) \<and>
          the (touchStart s) - the (touchEnd s) > minSwipeDistance
      | _ \<Rightarrow> False)"

subsection \<open>SlidePdfViewer: loading, scaling and rendering\<close>

text \<open>
  What the component keeps of the rendering engine's objects: of a loaded document the
  locator it was loaded from and its page count, of a page its width and height at
  scale 1. A rejected promise carries the engine's cancellation exception or some
  other error; \<open>InvalidHookCall\<close> is the error React throws from a hook that is
  called while no component is being rendered. \<^verbatim>\<open>console.error\<close> appends its
  message and the error to the console.
\<close>

record pdf_document =
  doc_url :: string
  numPages :: int

record pdf_page =
  pageWidth :: real
  pageHeight :: real

datatype js_error = RenderingCancelledException | PdfError string | InvalidHookCall

datatype log_entry = ConsoleError string js_error

text \<open>
  The drawing surface: its two dimensions and what its bitmap shows, nothing or a
  page drawn at a scale. Assigning \<^verbatim>\<open>canvas.height\<close> or \<^verbatim>\<open>canvas.width\<close>
  sets the bitmap dimensions, which (HTML standard, the canvas element) replaces the
  bitmap by a blank one of the new size, also when the value does not change. A
  bitmap shows a frame once its rasterization has completed; what a rejected
  rasterization had drawn by then is not represented.

  Both attributes are of type \<^verbatim>\<open>unsigned long\<close>: the number assigned is
  truncated towards zero and taken modulo \<open>2^32\<close>, and a result above
  \<open>2147483647\<close> is replaced by the attribute's default, 150 for the height and 300
  for the width.
\<close>

datatype frame = Blank | Frame int real

record canvas_state =
  canvas_width :: nat
  canvas_height :: nat
  bitmap :: frame

definition to_unsigned_long :: "real \<Rightarrow> nat" where
  "to_unsigned_long x =
     nat ((if 0 \<le> x then \<lfloor>x\<rfloor> else \<lceil>x\<rceil>) mod 4294967296)"

definition set_canvas_height :: "canvas_state \<Rightarrow> real \<Rightarrow> canvas_state" where
  "set_canvas_height c h =
     (let n = to_unsigned_long h
      in c\<lparr>canvas_height := (if n \<le> 2147483647 then n else 150), bitmap := Blank\<rparr>)"

definition set_canvas_width :: "canvas_state \<Rightarrow> real \<Rightarrow> canvas_state" where
  "set_canvas_width c w =
     (let n = to_unsigned_long w
      in c\<lparr>canvas_width := (if n \<le> 2147483647 then n else 300), bitmap := Blank\<rparr>)"

text \<open>
  A render task as \<^verbatim>\<open>renderTaskRef\<close> holds it: the page and scale it was started
  for, and whether its promise is still unsettled.
\<close>

record render_task =
  task_page :: int
  task_scale :: real
  running :: bool

record pdf_viewer_state =
  url :: string
  pdfDoc :: "pdf_document option"
  pendingLoads :: "string list"
  refsMounted :: bool
  renderTaskRef :: "render_task option"
  canvas :: canvas_state
  console :: "log_entry list"
  parent :: fullscreen_state

text \<open>
  \<open>url\<close> is the current value of the \<^verbatim>\<open>url\<close> property, \<open>pendingLoads\<close> the
  locators of the \<^verbatim>\<open>loadPdf\<close> calls whose promise has not settled,
  \<open>refsMounted\<close> whether \<^verbatim>\<open>canvasRef.current\<close> and \<^verbatim>\<open>containerRef.current\<close>
  are set, and \<open>parent\<close> the state of the enclosing \<^verbatim>\<open>FullscreenSlideViewer\<close>,
  which \<^verbatim>\<open>onPdfLoad\<close> updates.
\<close>

definition initial_viewer :: pdf_viewer_state where
  "initial_viewer =
     \<lparr>url = [], pdfDoc = None, pendingLoads = [], refsMounted = True,
      renderTaskRef = None,
      canvas = \<lparr>canvas_width = 300, canvas_height = 150, bitmap = Blank\<rparr>,
      console = [], parent = initial_state\<rparr>"

definition console_error :: "pdf_viewer_state \<Rightarrow> string \<Rightarrow> js_error \<Rightarrow> pdf_viewer_state" where
  "console_error s msg e = s\<lparr>console := console s @ [ConsoleError msg e]\<rparr>"

definition onPdfLoad :: "pdf_viewer_state \<Rightarrow> pdf_document \<Rightarrow> pdf_viewer_state" where
  "onPdfLoad s pdf = s\<lparr>parent := handlePdfLoad (parent s) (numPages pdf)\<rparr>"

text \<open>
  The effect on \<^verbatim>\<open>[url, onPdfLoad]\<close>: it runs when the property changes, returns
  at once on an empty locator and otherwise calls \<^verbatim>\<open>loadPdf\<close>, which suspends at
  its two \<^verbatim>\<open>await\<close>s. The effect returns no clean-up function.
\<close>

definition url_effect :: "pdf_viewer_state \<Rightarrow> string \<Rightarrow> pdf_viewer_state" where
  "url_effect s u =
     (let s1 = s\<lparr>url := u\<rparr>
      in if u = [] then s1 else s1\<lparr>pendingLoads := pendingLoads s1 @ [u]\<rparr>)"

text \<open>
  The rest of \<^verbatim>\<open>loadPdf\<close>, run when the load started for locator \<open>u\<close> settles:
  with a document, or with an error that the \<^verbatim>\<open>catch\<close> block logs.
\<close>

definition loadPdf_settled ::
  "pdf_viewer_state \<Rightarrow> string \<Rightarrow> js_error + pdf_document \<Rightarrow> pdf_viewer_state" where
  "loadPdf_settled s u r =
     (if u \<notin> set (pendingLoads s) then s
      else
        let s1 = s\<lparr>pendingLoads := remove1 u (pendingLoads s)\<rparr>
        in case r of
             Inr pdf \<Rightarrow> onPdfLoad (s1\<lparr>pdfDoc := Some pdf\<rparr>) pdf
           | Inl e \<Rightarrow> console_error s1 ''Error loading PDF:'' e)"

datatype load_event = UrlChanged string | LoadSettled string "js_error + pdf_document"

fun load_step :: "pdf_viewer_state \<Rightarrow> load_event \<Rightarrow> pdf_viewer_state" where
  "load_step s (UrlChanged u) = url_effect s u"
| "load_step s (LoadSettled u r) = loadPdf_settled s u r"

definition load_run :: "pdf_viewer_state \<Rightarrow> load_event list \<Rightarrow> pdf_viewer_state" where
  "load_run s evs = foldl load_step s evs"

text \<open>
  \<^verbatim>\<open>calculateOptimalScale\<close>. \<open>container\<close> is \<^verbatim>\<open>clientWidth\<close> and
  \<^verbatim>\<open>clientHeight\<close> of \<^verbatim>\<open>containerRef.current\<close>, when set, and
  \<open>page_result\<close> is how \<^verbatim>\<open>pdfDoc.getPage(currentSlide)\<close> settles. The result
  is \<open>Inr None\<close> when the function returns without setting a scale,
  \<open>Inr (Some x)\<close> when it passes \<open>x\<close> to \<^verbatim>\<open>setScale\<close>, and \<open>Inl e\<close> when
  the page promise is rejected with \<open>e\<close>: the promise that \<^verbatim>\<open>.then\<close> returns has
  no rejection handler, so the rejection stays unhandled.
\<close>

definition calculateOptimalScale ::
  "pdf_document option \<Rightarrow> (real \<times> real) option \<Rightarrow> js_error + pdf_page
     \<Rightarrow> js_error + jsnum option" where
  "calculateOptimalScale doc container page_result =
     (case doc of
        None \<Rightarrow> Inr None
      | Some pdf \<Rightarrow>
          (case container of
             None \<Rightarrow> Inr None
           | Some (containerWidth, containerHeight) \<Rightarrow>
               (case page_result of
                  Inl e \<Rightarrow> Inl e
                | Inr page \<Rightarrow>
                    let scaleX = js_div containerWidth (pageWidth page);
                        scaleY = js_div containerHeight (pageHeight page);
                        optimalScale = js_min scaleX scaleY
                    in Inr (Some optimalScale))))"

text \<open>The scale as the specification words it, over the reals.\<close>

definition spec_scale :: "real \<Rightarrow> real \<Rightarrow> real \<Rightarrow> real \<Rightarrow> real" where
  "spec_scale viewportWidth viewportHeight pw ph =
     min (viewportWidth / pw) (viewportHeight / ph)"

text \<open>
  \<^verbatim>\<open>renderPage\<close>. Calling \<^verbatim>\<open>cancel()\<close> on a task that is still running makes
  the engine reject that task's promise with its cancellation exception; the
  invocation of \<^verbatim>\<open>renderPage\<close> that awaits the promise resumes in its
  \<^verbatim>\<open>catch\<close> block. On a settled task \<^verbatim>\<open>cancel()\<close> has no effect.
\<close>

definition cancel_previous :: "pdf_viewer_state \<Rightarrow> pdf_viewer_state" where
  "cancel_previous s =
     (case renderTaskRef s of
        None \<Rightarrow> s
      | Some t \<Rightarrow>
          if running t
          then console_error (s\<lparr>renderTaskRef := Some (t\<lparr>running := False\<rparr>)\<rparr>)
                 ''Error rendering page:'' RenderingCancelledException
          else s)"

text \<open>
  How the promise of the new task has settled when the invocation is observed:
  fulfilled (the engine has drawn the page), rejected, or not yet.
\<close>

datatype render_outcome = Completed | Rejected js_error | Pending

text \<open>
  The \<^verbatim>\<open>try\<close> block. It yields the state it has reached when it is left and
  the error it was left with, if any. \<open>slide\<close> is the \<^verbatim>\<open>currentSlide\<close>
  property, \<open>page_result\<close> is how \<^verbatim>\<open>pdfDoc.getPage(currentSlide)\<close> settles and \<open>has_context\<close> whether
  \<^verbatim>\<open>canvas.getContext('2d')\<close> returns a context.
\<close>

definition renderPage_try ::
  "pdf_viewer_state \<Rightarrow> int \<Rightarrow> real \<Rightarrow> js_error + pdf_page \<Rightarrow> bool \<Rightarrow> render_outcome
     \<Rightarrow> pdf_viewer_state \<times> js_error option" where
  "renderPage_try s slide scale page_result has_context outcome =
     (let s1 = cancel_previous s
      in case page_result of
           Inl e \<Rightarrow> (s1, Some e)
         | Inr page \<Rightarrow>
             if \<not> has_context then (s1, None)
             else
               let s2 = s1\<lparr>canvas := set_canvas_height (canvas s1) (pageHeight page * scale)\<rparr>;
                   s3 = s2\<lparr>canvas := set_canvas_width (canvas s2) (pageWidth page * scale)\<rparr>;
                   renderTask = \<lparr>task_page = slide, task_scale = scale, running = True\<rparr>;
                   s4 = s3\<lparr>renderTaskRef := Some renderTask\<rparr>
               in (case outcome of
                     Pending \<Rightarrow> (s4, None)
                   | Completed \<Rightarrow>
                       (s4\<lparr>canvas := (canvas s4)\<lparr>bitmap := Frame slide scale\<rparr>,
                           renderTaskRef := None\<rparr>, None)
                   | Rejected e \<Rightarrow>
                       (s4\<lparr>renderTaskRef := Some (renderTask\<lparr>running := False\<rparr>)\<rparr>,
                        Some e)))"

text \<open>
  The effect on \<^verbatim>\<open>[pdfDoc, currentSlide, scale]\<close> with \<^verbatim>\<open>renderPage\<close> whole:
  the guard, the \<^verbatim>\<open>try\<close> block and the \<^verbatim>\<open>catch\<close> block. The second component
  is the error the asynchronous function would reject with.
\<close>

definition renderPage ::
  "pdf_viewer_state \<Rightarrow> int \<Rightarrow> real \<Rightarrow> js_error + pdf_page \<Rightarrow> bool \<Rightarrow> render_outcome
     \<Rightarrow> pdf_viewer_state \<times> js_error option" where
  "renderPage s slide scale page_result has_context outcome =
     (if pdfDoc s = None \<or> \<not> refsMounted s then (s, None)
      else
        case renderPage_try s slide scale page_result has_context outcome of
          (s', None) \<Rightarrow> (s', None)
        | (s', Some error) \<Rightarrow> (console_error s' ''Error rendering page:'' error, None))"

subsection \<open>useBase64ToBlobUrl\<close>

text \<open>
  \<^verbatim>\<open>String.prototype.startsWith\<close> and \<^verbatim>\<open>String.prototype.split\<close> on a
  one-character separator.
\<close>

definition startsWith :: "string \<Rightarrow> string \<Rightarrow> bool" where
  "startsWith s p = (take (length p) s = p)"

fun split_on :: "char \<Rightarrow> string \<Rightarrow> string list" where
  "split_on sep [] = [[]]"
| "split_on sep (c # cs) =
     (if c = sep then [] # split_on sep cs
      else (case split_on sep cs of
              [] \<Rightarrow> [[c]]
            | p # ps \<Rightarrow> (c # p) # ps))"

text \<open>
  \<^verbatim>\<open>atob\<close>, the browser's decoder (HTML standard, forgiving-base64 decode): ASCII
  whitespace is dropped; one or two trailing \<^verbatim>\<open>=\<close> are dropped when the length is
  a multiple of four; a length of 1 modulo 4 or a character outside the alphabet
  raises \<^verbatim>\<open>InvalidCharacterError\<close> (here \<open>None\<close>); otherwise every character
  stands for six bits and the bits left over at the end are discarded. The binary
  string it returns is modelled by the list of its character codes.
\<close>

definition base64_alphabet :: string where
  "base64_alphabet =
     ''ABCDEFGHIJKLMNOPQRSTUVWXYZabcdefghijklmnopqrstuvwxyz0123456789+/''"

fun index_of :: "char \<Rightarrow> string \<Rightarrow> nat option" where
  "index_of c [] = None"
| "index_of c (x # xs) = (if x = c then Some 0 else map_option Suc (index_of c xs))"

definition is_ascii_whitespace :: "char \<Rightarrow> bool" where
  "is_ascii_whitespace c =
     (c = CHR 0x09 \<or> c = CHR 0x0A \<or> c = CHR 0x0C \<or> c = CHR 0x0D \<or> c = CHR '' '')"

definition strip_padding :: "string \<Rightarrow> string" where
  "strip_padding s =
     (if s \<noteq> [] \<and> length s mod 4 = 0 \<and> last s = CHR ''=''
      then (if last (butlast s) = CHR ''='' then butlast (butlast s) else butlast s)
      else s)"

fun decode_sextets :: "nat list \<Rightarrow> nat list" where
  "decode_sextets (a # b # c # d # rest) =
     (let n = ((a * 64 + b) * 64 + c) * 64 + d
      in (n div 65536) # (n div 256 mod 256) # (n mod 256) # decode_sextets rest)"
| "decode_sextets [a, b, c] =
     (let n = (a * 64 + b) * 64 + c in [n div 1024, n div 4 mod 256])"
| "decode_sextets [a, b] = [(a * 64 + b) div 16]"
| "decode_sextets [a] = []"
| "decode_sextets [] = []"

definition atob :: "string \<Rightarrow> nat list option" where
  "atob encoded =
     (let stripped = strip_padding (filter (\<lambda>c. \<not> is_ascii_whitespace c) encoded)
      in if length stripped mod 4 = 1 then None
         else map_option decode_sextets
                (those (map (\<lambda>c. index_of c base64_alphabet) stripped)))"

text \<open>
  \<^verbatim>\<open>parts[1]\<close> of the string split at commas; where there is no comma it is
  \<^verbatim>\<open>undefined\<close>, which \<^verbatim>\<open>atob\<close> converts to the string \<^verbatim>\<open>"undefined"\<close>.
\<close>

definition base64_part :: "string \<Rightarrow> string" where
  "base64_part base64String =
     (case split_on CHR '','' base64String of
        p0 # p1 # ps \<Rightarrow> p1
      | _ \<Rightarrow> ''undefined'')"

text \<open>
  The hook's effect, followed to the value of \<^verbatim>\<open>blobUrl\<close> it leaves once its
  zero-delay timer has run. \<open>createObjectURL\<close> is the browser's
  \<^verbatim>\<open>URL.createObjectURL\<close> on a blob of the given bytes; storing a character code
  in the \<^verbatim>\<open>Uint8Array\<close> keeps it modulo 256. A failing \<^verbatim>\<open>atob\<close> is caught
  by the \<^verbatim>\<open>catch\<close> block.
\<close>

definition blobUrl_effect ::
  "(nat list \<Rightarrow> string) \<Rightarrow> string option \<Rightarrow> string option" where
  "blobUrl_effect createObjectURL base64String =
     (case base64String of
        None \<Rightarrow> None
      | Some b \<Rightarrow>
          if b = [] \<or> \<not> startsWith b ''data:application/pdf'' then None
          else (case atob (base64_part b) of
                  None \<Rightarrow> Some b
                | Some binaryStr \<Rightarrow>
                    Some (createObjectURL (map (\<lambda>code. code mod 256) binaryStr))))"

text \<open>
  The hook itself begins with \<^verbatim>\<open>useState\<close> and \<^verbatim>\<open>useEffect\<close>. React lets a
  hook run only while it renders a function component; called from anywhere else
  (an effect, an asynchronous function, an event handler) \<^verbatim>\<open>useState\<close> throws
  and nothing of the hook's body is run. Called from a component body, the hook
  yields the value its effect leaves in \<^verbatim>\<open>blobUrl\<close>.
\<close>

datatype call_site = ComponentBody | OutsideRender

definition useBase64ToBlobUrl ::
  "call_site \<Rightarrow> (nat list \<Rightarrow> string) \<Rightarrow> string option \<Rightarrow> js_error + string option" where
  "useBase64ToBlobUrl site createObjectURL base64String =
     (case site of
        OutsideRender \<Rightarrow> Inl InvalidHookCall
      | ComponentBody \<Rightarrow> Inr (blobUrl_effect createObjectURL base64String))"

text \<open>
  What a viewer reads of the \<^verbatim>\<open>content\<close> property: the identifier, the path of
  an uploaded file and the body, the last two possibly absent.
\<close>

record content =
  content_id :: string
  filePath :: "string option"
  body :: "string option"

fun truthy_string :: "string option \<Rightarrow> bool" where
  "truthy_string None = False"
| "truthy_string (Some s) = (s \<noteq> [])"

text \<open>
  \<^verbatim>\<open>loadPdfFromFile\<close> of \<^verbatim>\<open>FullscreenSlideViewer\<close>, the asynchronous function
  that the effect on \<^verbatim>\<open>[content]\<close> defines and calls: from the content and the
  current \<^verbatim>\<open>pdfUrl\<close> to the new \<^verbatim>\<open>pdfUrl\<close>, the locator handed to
  \<^verbatim>\<open>SlidePdfViewer\<close>, and what \<^verbatim>\<open>console.error\<close> has written. The call of the
  hook in the second branch stands inside this function, outside any render; what
  it throws is caught by the \<^verbatim>\<open>catch\<close> block of the function. The same function
  of \<^verbatim>\<open>SavedSlideViewer\<close> calls the hook in the same way.
\<close>

definition loadPdfFromFile ::
  "(nat list \<Rightarrow> string) \<Rightarrow> content \<Rightarrow> string option
     \<Rightarrow> string option \<times> log_entry list" where
  "loadPdfFromFile createObjectURL c pdfUrl =
     (if truthy_string (filePath c)
        then (Some (''/api/content/'' @ content_id c @ ''/file''), [])
      else if truthy_string (body c) \<and> startsWith (the (body c)) ''data:application/pdf''
        then (case useBase64ToBlobUrl OutsideRender createObjectURL (body c) of
                Inr blobUrl \<Rightarrow> (blobUrl, [])
              | Inl error \<Rightarrow>
                  (pdfUrl,
                   [ConsoleError ''[FullscreenSlideViewer] Error loading PDF:'' error]))
      else (pdfUrl, []))"

subsection \<open>SavedSlideViewer: the preview\<close>

text \<open>
  The preview's own cells and \<^verbatim>\<open>fullscreenMode\<close> of the enclosing
  \<^verbatim>\<open>SlideView\<close>, which the \<^verbatim>\<open>onExpand\<close> property sets. The clickable preview
  area is rendered only while \<^verbatim>\<open>pdfUrl\<close> is set; it carries
  \<^verbatim>\<open>onClick={onExpand}\<close> and \<^verbatim>\<open>onDoubleClick={handleDoubleClick}\<close>.
\<close>

record saved_state =
  saved_pdfUrl :: "string option"
  saved_lastClickTime :: int
  fullscreenMode :: bool

definition onExpand :: "saved_state \<Rightarrow> saved_state" where
  "onExpand s = s\<lparr>fullscreenMode := True\<rparr>"

definition saved_handleDoubleClick :: "saved_state \<Rightarrow> int \<Rightarrow> saved_state" where
  "saved_handleDoubleClick s currentTime =
     (let s1 = (if currentTime - saved_lastClickTime s < 300 then onExpand s else s)
      in s1\<lparr>saved_lastClickTime := currentTime\<rparr>)"

datatype preview_event = PreviewClick | PreviewDoubleClick

fun preview_dispatch :: "saved_state \<Rightarrow> int \<times> preview_event \<Rightarrow> saved_state" where
  "preview_dispatch s (now, PreviewClick) =
     (if saved_pdfUrl s = None then s else onExpand s)"
| "preview_dispatch s (now, PreviewDoubleClick) =
     (if saved_pdfUrl s = None then s else saved_handleDoubleClick s now)"

definition preview_run :: "saved_state \<Rightarrow> (int \<times> preview_event) list \<Rightarrow> saved_state" where
  "preview_run s evs = foldl preview_dispatch s evs"

section \<open>Navigation\<close>

subsection \<open>Every handler keeps the page in range\<close>

lemma handlePdfLoad_in_range: "1 \<le> n \<Longrightarrow> in_range (handlePdfLoad s n)"
  by (simp add: in_range_def handlePdfLoad_def)

lemma dispatch_in_range:
  "in_range s \<Longrightarrow> in_range (dispatch s ev) \<and> totalSlides (dispatch s ev) = totalSlides s"
proof (cases ev)
  case (Pair now e)
  assume "in_range s"
  then show ?thesis unfolding Pair
    by (cases e)
       (auto simp: in_range_def onTouchStart_def onTouchMove_def onTouchEnd_def Let_def
          handleClickNavigation_def handleDoubleClick_def handleKeyPress_def onClose_def)
qed

lemma run_in_range:
  "in_range s \<Longrightarrow> in_range (run s evs) \<and> totalSlides (run s evs) = totalSlides s"
  unfolding run_def
proof (induction evs arbitrary: s)
  case Nil
  then show ?case by simp
next
  case (Cons ev evs)
  from Cons.prems have 1: "in_range (dispatch s ev)"
    and 2: "totalSlides (dispatch s ev) = totalSlides s"
    using dispatch_in_range by blast+
  from Cons.IH [OF 1] 2 show ?case by simp
qed

lemma decrement_step:
  "in_range s \<Longrightarrow> is_decrement s ev \<Longrightarrow>
     dispatch s (now, ev) = s\<lparr>currentSlide := max 1 (currentSlide s - 1)\<rparr>"
  by (cases ev)
     (auto simp: is_decrement_def onTouchEnd_def Let_def minSwipeDistance_def in_range_def
        handleClickNavigation_def handleKeyPress_def max_def)

lemma increment_step:
  "in_range s \<Longrightarrow> is_increment s ev \<Longrightarrow>
     dispatch s (now, ev) = s\<lparr>currentSlide := min (totalSlides s) (currentSlide s + 1)\<rparr>"
  by (cases ev)
     (auto simp: is_increment_def onTouchEnd_def Let_def minSwipeDistance_def in_range_def
        handleClickNavigation_def handleKeyPress_def min_def)

lemma decrement_at_first:
  "currentSlide s = 1 \<Longrightarrow> is_decrement s ev \<Longrightarrow> dispatch s (now, ev) = s"
  by (cases ev)
     (auto simp: is_decrement_def onTouchEnd_def Let_def minSwipeDistance_def
        handleClickNavigation_def handleKeyPress_def)

lemma increment_at_last:
  "currentSlide s = totalSlides s \<Longrightarrow> is_increment s ev \<Longrightarrow> dispatch s (now, ev) = s"
  by (cases ev)
     (auto simp: is_increment_def onTouchEnd_def Let_def minSwipeDistance_def
        handleClickNavigation_def handleKeyPress_def)

text \<open>
  Claim C1. From a state whose page lies in \<open>[1, totalSlides]\<close> (so there is at least
  one page), every sequence of touch, click, double-click and key events leaves the
  page in that range and the page count as it was. A decrementing transition sets the
  page to \<open>max 1 (currentSlide - 1)\<close> and an incrementing one to
  \<open>min totalSlides (currentSlide + 1)\<close>; on page 1 a decrement, and on the last page
  an increment, returns the state unchanged. The handlers are total: none of them
  has a failing branch.
\<close>

theorem navigation_stays_in_range:
  assumes "in_range s"
  shows "1 \<le> currentSlide (run s evs) \<and> currentSlide (run s evs) \<le> totalSlides s
       \<and> totalSlides (run s evs) = totalSlides s
       \<and> (is_decrement s ev \<longrightarrow>
            dispatch s (now, ev) = s\<lparr>currentSlide := max 1 (currentSlide s - 1)\<rparr>)
       \<and> (is_increment s ev \<longrightarrow>
            dispatch s (now, ev) = s\<lparr>currentSlide := min (totalSlides s) (currentSlide s + 1)\<rparr>)
       \<and> (currentSlide s = 1 \<and> is_decrement s ev \<longrightarrow> dispatch s (now, ev) = s)
       \<and> (currentSlide s = totalSlides s \<and> is_increment s ev \<longrightarrow> dispatch s (now, ev) = s)"
proof -
  from run_in_range [OF assms, of evs]
  have "1 \<le> currentSlide (run s evs)" and "currentSlide (run s evs) \<le> totalSlides s"
    and "totalSlides (run s evs) = totalSlides s"
    by (simp_all add: in_range_def)
  then show ?thesis
    using decrement_step [OF assms] increment_step [OF assms]
      decrement_at_first increment_at_last
    by blast
qed

text \<open>
  The theorem at a three-page document: five presses of the right arrow, a swipe to
  the left and a click in the right zone end on page 3, and on page 1 the left arrow
  changes nothing.
\<close>

theorem navigation_stays_in_range_witness:
  "in_range (handlePdfLoad initial_state 3)
   \<and> 1 \<le> currentSlide (run (handlePdfLoad initial_state 3)
        [(0, KeyDown ''ArrowRight''), (1, KeyDown ''ArrowRight''), (2, KeyDown ''ArrowRight''),
         (3, KeyDown ''ArrowRight''), (4, KeyDown ''ArrowRight''),
         (5, TouchStart 300), (6, TouchMove 100), (7, TouchEnd),
         (8, Click \<lparr>clientX = 390, rect_left = 0, rect_width = 400\<rparr>)])
   \<and> currentSlide (run (handlePdfLoad initial_state 3)
        [(0, KeyDown ''ArrowRight''), (1, KeyDown ''ArrowRight''), (2, KeyDown ''ArrowRight''),
         (3, KeyDown ''ArrowRight''), (4, KeyDown ''ArrowRight''),
         (5, TouchStart 300), (6, TouchMove 100), (7, TouchEnd),
         (8, Click \<lparr>clientX = 390, rect_left = 0, rect_width = 400\<rparr>)]) \<le> 3
   \<and> dispatch (handlePdfLoad initial_state 3) (9, KeyDown ''ArrowLeft'')
        = handlePdfLoad initial_state 3"
proof -
  have h: "in_range (handlePdfLoad initial_state 3)"
    by (simp add: in_range_def handlePdfLoad_def)
  have d: "is_decrement (handlePdfLoad initial_state 3) (KeyDown ''ArrowLeft'')"
    by (simp add: is_decrement_def)
  have c: "currentSlide (handlePdfLoad initial_state 3) = 1"
    and t: "totalSlides (handlePdfLoad initial_state 3) = 3"
    by (simp_all add: handlePdfLoad_def)
  from navigation_stays_in_range [OF h, of
      "[(0, KeyDown ''ArrowRight''), (1, KeyDown ''ArrowRight''), (2, KeyDown ''ArrowRight''),
        (3, KeyDown ''ArrowRight''), (4, KeyDown ''ArrowRight''),
        (5, TouchStart 300), (6, TouchMove 100), (7, TouchEnd),
        (8, Click \<lparr>clientX = 390, rect_left = 0, rect_width = 400\<rparr>)]"
      "KeyDown ''ArrowLeft''" 9] h d c t
  show ?thesis by simp
qed

subsection \<open>Click zones\<close>

lemma clickPercentage_pos:
  "0 < rect_width e \<Longrightarrow>
     clickPercentage e = Num ((clientX e - rect_left e) / rect_width e * 100)"
  by (simp add: clickPercentage_def js_div_def)

text \<open>
  Claim C2, amended. On a surface of positive width, with the viewer mounted, a click
  at or left of 25% of the width decrements the page (clamped at 1), a click at or
  right of 75% increments it (clamped at the page count), and a click strictly
  between the two leaves the state unchanged. Both boundaries belong to the
  navigating zones: a click at exactly 25% decrements.
\<close>

theorem click_zone_boundaries:
  assumes "viewerRef s" and "0 < rect_width e"
  shows "(clientX e - rect_left e \<le> rect_width e / 4 \<longrightarrow>
            handleClickNavigation s e = s\<lparr>currentSlide := max 1 (currentSlide s - 1)\<rparr>)
       \<and> (3 * rect_width e / 4 \<le> clientX e - rect_left e \<longrightarrow>
            handleClickNavigation s e
              = s\<lparr>currentSlide := min (totalSlides s) (currentSlide s + 1)\<rparr>)
       \<and> (rect_width e / 4 < clientX e - rect_left e
             \<and> clientX e - rect_left e < 3 * rect_width e / 4 \<longrightarrow>
            handleClickNavigation s e = s)"
proof -
  let ?x = "clientX e - rect_left e" and ?w = "rect_width e"
  have le: "(?x / ?w * 100 \<le> 25) = (?x \<le> ?w / 4)"
    using assms(2) by (auto simp: field_simps)
  have ge: "(75 \<le> ?x / ?w * 100) = (3 * ?w / 4 \<le> ?x)"
    using assms(2) by (auto simp: field_simps)
  show ?thesis
    using assms le ge
    by (auto simp: handleClickNavigation_def clickPercentage_pos)
qed

text \<open>
  On page 3 of 5 and a surface 400 pixels wide: a click at 100 goes to page 2, a click
  at 300 to page 4, a click at 101 stays.
\<close>

theorem click_zone_boundaries_witness:
  "handleClickNavigation (initial_state\<lparr>totalSlides := 5, currentSlide := 3\<rparr>)
       \<lparr>clientX = 100, rect_left = 0, rect_width = 400\<rparr>
     = initial_state\<lparr>totalSlides := 5, currentSlide := 2\<rparr>
   \<and> handleClickNavigation (initial_state\<lparr>totalSlides := 5, currentSlide := 3\<rparr>)
       \<lparr>clientX = 300, rect_left = 0, rect_width = 400\<rparr>
     = initial_state\<lparr>totalSlides := 5, currentSlide := 4\<rparr>
   \<and> handleClickNavigation (initial_state\<lparr>totalSlides := 5, currentSlide := 3\<rparr>)
       \<lparr>clientX = 101, rect_left = 0, rect_width = 400\<rparr>
     = initial_state\<lparr>totalSlides := 5, currentSlide := 3\<rparr>"
  using click_zone_boundaries [of "initial_state\<lparr>totalSlides := 5, currentSlide := 3\<rparr>"
          "\<lparr>clientX = 100, rect_left = 0, rect_width = 400\<rparr>"]
        click_zone_boundaries [of "initial_state\<lparr>totalSlides := 5, currentSlide := 3\<rparr>"
          "\<lparr>clientX = 300, rect_left = 0, rect_width = 400\<rparr>"]
        click_zone_boundaries [of "initial_state\<lparr>totalSlides := 5, currentSlide := 3\<rparr>"
          "\<lparr>clientX = 101, rect_left = 0, rect_width = 400\<rparr>"]
  by (simp add: initial_state_def)

text \<open>
  Claim C2 as stated fails: the click at 100 of 400 pixels is at exactly 25%, and on
  page 3 it moves to page 2.
\<close>

theorem click_at_quarter_counterexample:
  "clickPercentage \<lparr>clientX = 100, rect_left = 0, rect_width = 400\<rparr> = Num 25
   \<and> currentSlide (initial_state\<lparr>totalSlides := 5, currentSlide := 3\<rparr>) = 3
   \<and> currentSlide (handleClickNavigation (initial_state\<lparr>totalSlides := 5, currentSlide := 3\<rparr>)
        \<lparr>clientX = 100, rect_left = 0, rect_width = 400\<rparr>) = 2"
  by (simp add: handleClickNavigation_def clickPercentage_def js_div_def initial_state_def)

subsection \<open>Clicks and double clicks\<close>

text \<open>
  Claim C3, amended. The click handler compares no timestamps: with the viewer
  mounted, two clicks in the same navigation zone both navigate, whatever their
  times \<open>t1\<close> and \<open>t2\<close> are, so the page moves by two (clamped); a click leaves
  \<open>lastClickTime\<close> alone, and the double-click handler never changes the page.
\<close>

theorem clicks_not_debounced:
  assumes "viewerRef s" and "in_range s"
  shows "(js_le (clickPercentage e) 25 \<longrightarrow>
            currentSlide (run s [(t1, Click e), (t2, Click e)]) = max 1 (currentSlide s - 2))
       \<and> (\<not> js_le (clickPercentage e) 25 \<and> js_ge (clickPercentage e) 75 \<longrightarrow>
            currentSlide (run s [(t1, Click e), (t2, Click e)])
              = min (totalSlides s) (currentSlide s + 2))
       \<and> lastClickTime (dispatch s (t1, Click e)) = lastClickTime s
       \<and> currentSlide (dispatch s (t2, DoubleClick)) = currentSlide s"
  using assms
  by (auto simp: run_def handleClickNavigation_def handleDoubleClick_def onClose_def
        in_range_def)

theorem clicks_not_debounced_witness:
  "currentSlide (run (initial_state\<lparr>totalSlides := 5, currentSlide := 3\<rparr>)
      [(1700000000000, Click \<lparr>clientX = 40, rect_left = 0, rect_width = 400\<rparr>),
       (1700000000100, Click \<lparr>clientX = 40, rect_left = 0, rect_width = 400\<rparr>)]) = 1
   \<and> currentSlide (dispatch (initial_state\<lparr>totalSlides := 5, currentSlide := 3\<rparr>)
        (1700000000100, DoubleClick)) = 3"
proof -
  have v: "viewerRef (initial_state\<lparr>totalSlides := 5, currentSlide := 3\<rparr>)"
    by (simp add: initial_state_def)
  have r: "in_range (initial_state\<lparr>totalSlides := 5, currentSlide := 3\<rparr>)"
    by (simp add: in_range_def)
  have z: "js_le (clickPercentage \<lparr>clientX = 40, rect_left = 0, rect_width = 400\<rparr>) 25"
    by (simp add: clickPercentage_def js_div_def)
  from clicks_not_debounced [OF v r, of "\<lparr>clientX = 40, rect_left = 0, rect_width = 400\<rparr>"
      1700000000000 1700000000100] z
  show ?thesis by simp
qed

text \<open>
  Claim C3 as stated fails: on page 3 of 5, a click in the right zone goes to page 4,
  and a second click 100 ms later, followed by the double-click event the browser
  sends with it, ends on page 5.
\<close>

theorem second_click_counterexample:
  "currentSlide (run (initial_state\<lparr>totalSlides := 5, currentSlide := 3\<rparr>)
      [(1700000000000, Click \<lparr>clientX = 360, rect_left = 0, rect_width = 400\<rparr>)]) = 4
   \<and> currentSlide (run (initial_state\<lparr>totalSlides := 5, currentSlide := 3\<rparr>)
      [(1700000000000, Click \<lparr>clientX = 360, rect_left = 0, rect_width = 400\<rparr>),
       (1700000000100, Click \<lparr>clientX = 360, rect_left = 0, rect_width = 400\<rparr>),
       (1700000000100, DoubleClick)]) = 5"
  by (simp add: run_def handleClickNavigation_def clickPercentage_def js_div_def
        initial_state_def handleDoubleClick_def onClose_def)

subsection \<open>Swipes\<close>

text \<open>
  Where both coordinates of the gesture are non-zero, \<^verbatim>\<open>onTouchEnd\<close> follows the
  threshold: a distance of at most 50 pixels changes nothing, more than 50 to the
  left increments and more than 50 to the right decrements, both clamped.
\<close>

lemma onTouchEnd_threshold:
  assumes "touchStart s = Some a" "touchEnd s = Some b" "a \<noteq> 0" "b \<noteq> 0" "in_range s"
  shows "(\<bar>a - b\<bar> \<le> 50 \<longrightarrow> onTouchEnd s = s)
       \<and> (a - b > 50 \<longrightarrow>
            onTouchEnd s = s\<lparr>currentSlide := min (totalSlides s) (currentSlide s + 1)\<rparr>)
       \<and> (a - b < - 50 \<longrightarrow>
            onTouchEnd s = s\<lparr>currentSlide := max 1 (currentSlide s - 1)\<rparr>)"
  using assms
  by (auto simp: onTouchEnd_def Let_def minSwipeDistance_def in_range_def min_def max_def)

text \<open>
  Claim C8 does not hold of the code where a coordinate is zero. A finger that goes
  down at 100 and is lifted at the left edge, at 0, has moved 100 pixels to the left,
  more than the threshold; \<^verbatim>\<open>!touchEnd\<close> is then true, \<^verbatim>\<open>onTouchEnd\<close> returns at
  once, and the viewer stays on page 1 of 3.
\<close>

theorem onTouchEnd_zero_coordinate:
  "the (touchStart (run initial_state [(0, TouchStart 100), (16, TouchMove 0)]))
       - the (touchEnd (run initial_state [(0, TouchStart 100), (16, TouchMove 0)]))
     > minSwipeDistance
   \<and> currentSlide (run (handlePdfLoad initial_state 3)
        [(0, TouchStart 100), (16, TouchMove 0), (32, TouchEnd)]) = 1
   \<and> currentSlide (run (handlePdfLoad initial_state 3)
        [(0, TouchStart 101), (16, TouchMove 1), (32, TouchEnd)]) = 2"
  by (simp add: onTouchEnd_def initial_state_def minSwipeDistance_def run_def
        onTouchStart_def onTouchMove_def handlePdfLoad_def)

section \<open>Loading\<close>

text \<open>
  Claim C6, amended. A load that was started and has not settled stays pending when
  the source is replaced, and when it settles with a document that document becomes
  the loaded document and its page count is reported to the parent, whatever the
  current source is: the loaded document is that of the load that settled last. When
  it settles with an error the loaded document is kept and the error is logged to the
  console.
\<close>

theorem settled_load_becomes_document:
  assumes "u \<in> set (pendingLoads s)"
  shows "pdfDoc (loadPdf_settled s u (Inr pdf)) = Some pdf
       \<and> totalSlides (parent (loadPdf_settled s u (Inr pdf))) = numPages pdf
       \<and> currentSlide (parent (loadPdf_settled s u (Inr pdf))) = 1
       \<and> console (loadPdf_settled s u (Inr pdf)) = console s
       \<and> pdfDoc (loadPdf_settled s u (Inl e)) = pdfDoc s
       \<and> console (loadPdf_settled s u (Inl e))
           = console s @ [ConsoleError ''Error loading PDF:'' e]
       \<and> u \<in> set (pendingLoads (url_effect s v))"
  using assms
  by (simp add: loadPdf_settled_def onPdfLoad_def handlePdfLoad_def console_error_def
        url_effect_def Let_def)

text \<open>
  The load of the first file is pending after the source has been replaced by the
  second, and its document is taken when it arrives.
\<close>

theorem settled_load_becomes_document_witness:
  "''/api/content/a1/file'' \<in> set (pendingLoads (load_run initial_viewer
       [UrlChanged ''/api/content/a1/file'', UrlChanged ''/api/content/b2/file'']))
   \<and> url (load_run initial_viewer
       [UrlChanged ''/api/content/a1/file'', UrlChanged ''/api/content/b2/file''])
       = ''/api/content/b2/file''
   \<and> pdfDoc (loadPdf_settled (load_run initial_viewer
       [UrlChanged ''/api/content/a1/file'', UrlChanged ''/api/content/b2/file''])
       ''/api/content/a1/file'' (Inr \<lparr>doc_url = ''/api/content/a1/file'', numPages = 3\<rparr>))
       = Some \<lparr>doc_url = ''/api/content/a1/file'', numPages = 3\<rparr>"
proof -
  have p: "''/api/content/a1/file'' \<in> set (pendingLoads (load_run initial_viewer
       [UrlChanged ''/api/content/a1/file'', UrlChanged ''/api/content/b2/file'']))"
    by (simp add: load_run_def initial_viewer_def url_effect_def)
  have u: "url (load_run initial_viewer
       [UrlChanged ''/api/content/a1/file'', UrlChanged ''/api/content/b2/file''])
       = ''/api/content/b2/file''"
    by (simp add: load_run_def initial_viewer_def url_effect_def)
  from settled_load_becomes_document [OF p] p u show ?thesis by blast
qed

text \<open>
  Claim C6 as stated fails: the source is replaced while the first load is pending,
  the second load settles first and the first one after it; the current source is
  then the second file and the loaded document that of the first.
\<close>

theorem stale_load_counterexample:
  "url (load_run initial_viewer
      [UrlChanged ''/api/content/a1/file'', UrlChanged ''/api/content/b2/file'',
       LoadSettled ''/api/content/b2/file''
         (Inr \<lparr>doc_url = ''/api/content/b2/file'', numPages = 5\<rparr>),
       LoadSettled ''/api/content/a1/file''
         (Inr \<lparr>doc_url = ''/api/content/a1/file'', numPages = 3\<rparr>)])
     = ''/api/content/b2/file''
   \<and> pdfDoc (load_run initial_viewer
      [UrlChanged ''/api/content/a1/file'', UrlChanged ''/api/content/b2/file'',
       LoadSettled ''/api/content/b2/file''
         (Inr \<lparr>doc_url = ''/api/content/b2/file'', numPages = 5\<rparr>),
       LoadSettled ''/api/content/a1/file''
         (Inr \<lparr>doc_url = ''/api/content/a1/file'', numPages = 3\<rparr>)])
     = Some \<lparr>doc_url = ''/api/content/a1/file'', numPages = 3\<rparr>"
  by (simp add: load_run_def initial_viewer_def url_effect_def loadPdf_settled_def
        onPdfLoad_def handlePdfLoad_def)

section \<open>Scaling\<close>

text \<open>
  When the page cannot be fetched, no scale is set and the rejection is passed on:
  nothing in \<^verbatim>\<open>calculateOptimalScale\<close> handles it.
\<close>

lemma scale_page_rejection_unhandled:
  "calculateOptimalScale (Some pdf) (Some (viewportWidth, viewportHeight)) (Inl e) = Inl e"
  by (simp add: calculateOptimalScale_def)

text \<open>
  Claim C7. For a loaded document, a mounted container of width \<open>viewportWidth\<close> and
  height \<open>viewportHeight\<close> and a page of positive width and height, the scale that
  \<^verbatim>\<open>calculateOptimalScale\<close> sets is the smaller of the two ratios
  \<open>viewportWidth / pageWidth\<close> and \<open>viewportHeight / pageHeight\<close>, with nothing
  subtracted.
\<close>

theorem optimal_scale_is_min_ratio:
  assumes "0 < pageWidth page" and "0 < pageHeight page"
  shows "calculateOptimalScale (Some pdf) (Some (viewportWidth, viewportHeight)) (Inr page)
       = Inr (Some (Num (spec_scale viewportWidth viewportHeight
                           (pageWidth page) (pageHeight page))))"
  using assms by (simp add: calculateOptimalScale_def js_div_def spec_scale_def)

text \<open>A page of 600 by 800 in a viewport of 1200 by 900 gets the scale 1.125.\<close>

theorem optimal_scale_is_min_ratio_witness:
  "(0::real) < 600 \<and> (0::real) < 800
   \<and> calculateOptimalScale (Some \<lparr>doc_url = ''/api/content/a1/file'', numPages = 3\<rparr>)
        (Some (1200, 900)) (Inr \<lparr>pageWidth = 600, pageHeight = 800\<rparr>)
       = Inr (Some (Num 1.125))"
  using optimal_scale_is_min_ratio
          [of "\<lparr>pageWidth = 600, pageHeight = 800\<rparr>"
              "\<lparr>doc_url = ''/api/content/a1/file'', numPages = 3\<rparr>" 1200 900]
  by (simp add: spec_scale_def)

section \<open>Rendering\<close>


lemma console_renderPage_try:
  "\<exists>rest. console (fst (renderPage_try s slide scale r c out))
            = console (cancel_previous s) @ rest"
  by (simp add: renderPage_try_def Let_def split: sum.splits render_outcome.splits)




text \<open>
  Claim C5, amended. When a render request finds the task of an earlier one still
  running, it cancels it; the rejection is caught by the \<^verbatim>\<open>catch\<close> block of the
  earlier invocation, so nothing is rejected unhandled, and it is logged there
  through \<^verbatim>\<open>console.error\<close> with the message used for every other render error:
  the cancellation is not told apart from a failure.
\<close>

theorem cancelled_render_caught_and_logged:
  assumes "pdfDoc s \<noteq> None" and "refsMounted s"
    and "renderTaskRef s = Some t" and "running t"
  shows "console (cancel_previous s)
           = console s @ [ConsoleError ''Error rendering page:'' RenderingCancelledException]
       \<and> (\<exists>rest. console (fst (renderPage s slide scale page_result has_context outcome))
             = console s
               @ ConsoleError ''Error rendering page:'' RenderingCancelledException # rest)
       \<and> snd (renderPage s slide scale page_result has_context outcome) = None"
proof -
  have 1: "console (cancel_previous s)
           = console s @ [ConsoleError ''Error rendering page:'' RenderingCancelledException]"
    using assms(3,4) by (simp add: cancel_previous_def console_error_def)
  obtain rest where
    2: "console (fst (renderPage_try s slide scale page_result has_context outcome))
          = console (cancel_previous s) @ rest"
    using console_renderPage_try by blast
  have 3: "\<exists>rest. console (fst (renderPage s slide scale page_result has_context outcome))
             = console s
               @ ConsoleError ''Error rendering page:'' RenderingCancelledException # rest"
    using assms(1,2) 1 2
    by (cases "renderPage_try s slide scale page_result has_context outcome")
       (auto simp: renderPage_def console_error_def split: option.splits)
  have 4: "snd (renderPage s slide scale page_result has_context outcome) = None"
    by (simp add: renderPage_def split: prod.splits option.splits)
  from 1 3 4 show ?thesis by blast
qed

text \<open>
  A viewer whose task for page 1 is running: the cancellation that a new request
  issues is logged as a render error.
\<close>

theorem cancelled_render_caught_and_logged_witness:
  "console (cancel_previous (initial_viewer
       \<lparr>pdfDoc := Some \<lparr>doc_url = ''/api/content/a1/file'', numPages = 3\<rparr>,
        renderTaskRef := Some \<lparr>task_page = 1, task_scale = 1, running = True\<rparr>\<rparr>))
     = [ConsoleError ''Error rendering page:'' RenderingCancelledException]
   \<and> snd (renderPage (initial_viewer
       \<lparr>pdfDoc := Some \<lparr>doc_url = ''/api/content/a1/file'', numPages = 3\<rparr>,
        renderTaskRef := Some \<lparr>task_page = 1, task_scale = 1, running = True\<rparr>\<rparr>)
       2 1 (Inr \<lparr>pageWidth = 800, pageHeight = 600\<rparr>) True Completed) = None"
proof -
  let ?s = "initial_viewer
       \<lparr>pdfDoc := Some \<lparr>doc_url = ''/api/content/a1/file'', numPages = 3\<rparr>,
        renderTaskRef := Some \<lparr>task_page = 1, task_scale = 1, running = True\<rparr>\<rparr>"
  have d: "pdfDoc ?s \<noteq> None" by simp
  have r: "refsMounted ?s" by (simp add: initial_viewer_def)
  have t: "renderTaskRef ?s = Some \<lparr>task_page = 1, task_scale = 1, running = True\<rparr>" by simp
  have g: "running \<lparr>task_page = 1, task_scale = 1, running = True\<rparr>" by simp
  have c: "console ?s = []" by (simp add: initial_viewer_def)
  from cancelled_render_caught_and_logged [OF d r t g, of 2 1
      "Inr \<lparr>pageWidth = 800, pageHeight = 600\<rparr>" True Completed] c
  show ?thesis by simp
qed

text \<open>
  Claim C5 as stated fails: the render of page 1 is awaiting its task when page 2 is
  requested; once page 2 is drawn the console holds one error entry, the
  cancellation of the first task.
\<close>

theorem cancelled_render_counterexample:
  "renderTaskRef (fst (renderPage (initial_viewer
       \<lparr>pdfDoc := Some \<lparr>doc_url = ''/api/content/a1/file'', numPages = 3\<rparr>\<rparr>)
       1 1 (Inr \<lparr>pageWidth = 800, pageHeight = 600\<rparr>) True Pending))
     = Some \<lparr>task_page = 1, task_scale = 1, running = True\<rparr>
   \<and> console (fst (renderPage (fst (renderPage (initial_viewer
       \<lparr>pdfDoc := Some \<lparr>doc_url = ''/api/content/a1/file'', numPages = 3\<rparr>\<rparr>)
       1 1 (Inr \<lparr>pageWidth = 800, pageHeight = 600\<rparr>) True Pending))
       2 1 (Inr \<lparr>pageWidth = 800, pageHeight = 600\<rparr>) True Completed))
     = [ConsoleError ''Error rendering page:'' RenderingCancelledException]"
  by (simp add: renderPage_def renderPage_try_def cancel_previous_def initial_viewer_def
        set_canvas_height_def set_canvas_width_def console_error_def)

section \<open>The embedded document\<close>

text \<open>
  Run from a component body, the hook does fall back: for an encoding that starts
  with the data prefix of a PDF and whose payload \<^verbatim>\<open>atob\<close> rejects, it ends with
  \<^verbatim>\<open>blobUrl\<close> equal to the string it was given.
\<close>

lemma decode_failure_falls_back:
  assumes "startsWith b ''data:application/pdf''" and "atob (base64_part b) = None"
  shows "useBase64ToBlobUrl ComponentBody createObjectURL (Some b) = Inr (Some b)"
  using assms by (auto simp: useBase64ToBlobUrl_def blobUrl_effect_def startsWith_def)

lemma atob_percent: "atob (base64_part ''data:application/pdf;base64,%%%'') = None"
proof -
  have "base64_part ''data:application/pdf;base64,%%%'' = ''%%%''"
    by (simp add: base64_part_def)
  then show ?thesis
    by (simp add: atob_def strip_padding_def is_ascii_whitespace_def base64_alphabet_def)
qed

text \<open>
  Claim C9 does not hold of the program. The content has no file path and the body
  \<^verbatim>\<open>data:application/pdf;base64,%%%\<close>, whose payload \<^verbatim>\<open>atob\<close> rejects. The
  viewer calls the hook from \<^verbatim>\<open>loadPdfFromFile\<close>, outside any render: the call
  throws, the error is logged, and \<^verbatim>\<open>pdfUrl\<close> stays unset, so the loader is given
  no locator. The same call from a component body would have returned the encoded
  string.
\<close>

theorem materializer_called_outside_render:
  "atob (base64_part ''data:application/pdf;base64,%%%'') = None
   \<and> useBase64ToBlobUrl OutsideRender (\<lambda>bytes. ''blob:local'')
        (Some ''data:application/pdf;base64,%%%'') = Inl InvalidHookCall
   \<and> loadPdfFromFile (\<lambda>bytes. ''blob:local'')
        \<lparr>content_id = ''a1'', filePath = None,
         body = Some ''data:application/pdf;base64,%%%''\<rparr> None
       = (None, [ConsoleError ''[FullscreenSlideViewer] Error loading PDF:'' InvalidHookCall])
   \<and> useBase64ToBlobUrl ComponentBody (\<lambda>bytes. ''blob:local'')
        (Some ''data:application/pdf;base64,%%%'')
       = Inr (Some ''data:application/pdf;base64,%%%'')"
proof -
  have s: "startsWith ''data:application/pdf;base64,%%%'' ''data:application/pdf''"
    by (simp add: startsWith_def)
  have 1: "useBase64ToBlobUrl OutsideRender (\<lambda>bytes. ''blob:local'')
        (Some ''data:application/pdf;base64,%%%'') = Inl InvalidHookCall"
    by (simp add: useBase64ToBlobUrl_def)
  have 2: "loadPdfFromFile (\<lambda>bytes. ''blob:local'')
        \<lparr>content_id = ''a1'', filePath = None,
         body = Some ''data:application/pdf;base64,%%%''\<rparr> None
       = (None, [ConsoleError ''[FullscreenSlideViewer] Error loading PDF:'' InvalidHookCall])"
    using s by (simp add: loadPdfFromFile_def useBase64ToBlobUrl_def)
  from decode_failure_falls_back [OF s atob_percent] atob_percent 1 2
  show ?thesis by blast
qed

section \<open>The preview\<close>

lemma preview_dispatch_keeps_fullscreen:
  "fullscreenMode s \<Longrightarrow> fullscreenMode (preview_dispatch s ev)"
  by (cases ev; cases "snd ev")
     (auto simp: onExpand_def saved_handleDoubleClick_def Let_def)

lemma preview_run_keeps_fullscreen:
  "fullscreenMode s \<Longrightarrow> fullscreenMode (preview_run s evs)"
  unfolding preview_run_def
  by (induction evs arbitrary: s) (simp_all add: preview_dispatch_keeps_fullscreen)

text \<open>
  Claim C10. While the preview area is shown (\<^verbatim>\<open>pdfUrl\<close> is set), a single click
  on it sets \<^verbatim>\<open>fullscreenMode\<close>, whatever the time of the click and of earlier
  ones, and every sequence of clicks and double clicks on the preview that starts
  with a click ends with \<^verbatim>\<open>fullscreenMode\<close> set.
\<close>

theorem preview_click_opens_fullscreen:
  assumes "saved_pdfUrl s \<noteq> None"
  shows "fullscreenMode (preview_dispatch s (now, PreviewClick))
       \<and> fullscreenMode (preview_run s ((now, PreviewClick) # evs))"
proof -
  have 1: "fullscreenMode (preview_dispatch s (now, PreviewClick))"
    using assms by (auto simp: onExpand_def)
  have "preview_run s ((now, PreviewClick) # evs)
      = preview_run (preview_dispatch s (now, PreviewClick)) evs"
    by (simp add: preview_run_def)
  with 1 show ?thesis by (simp add: preview_run_keeps_fullscreen)
qed

theorem preview_click_opens_fullscreen_witness:
  "saved_pdfUrl \<lparr>saved_pdfUrl = Some ''/api/content/a1/file'', saved_lastClickTime = 0,
        fullscreenMode = False\<rparr> \<noteq> None
   \<and> fullscreenMode (preview_run
        \<lparr>saved_pdfUrl = Some ''/api/content/a1/file'', saved_lastClickTime = 0,
         fullscreenMode = False\<rparr> [(1700000000000, PreviewClick)])"
  using preview_click_opens_fullscreen
          [of "\<lparr>saved_pdfUrl = Some ''/api/content/a1/file'', saved_lastClickTime = 0,
                fullscreenMode = False\<rparr>" 1700000000000 "[]"]
  by simp

end
